theory Spec2Isabelle
  imports Main "HOL-Library.Sublist"
begin

section \<open>JavaScript values, strings and template literals\<close>

text \<open>
  The two classes of the repository, \<^verbatim>\<open>FastlyGateway\<close>
  (src/gateway/FastlyGateway.js) and \<^verbatim>\<open>GoogleDeployer\<close>, are embedded
  function by function. A field that the constructor leaves \<^verbatim>\<open>undefined\<close>
  and a setter later fills with a string is a \<open>jsval\<close>; a field that is always
  a string is a \<open>string\<close>.
\<close>

datatype jsval = Undefined | Str string

text \<open>JavaScript truthiness (\<^verbatim>\<open>!!v\<close>): undefined and the empty string are falsy.\<close>

fun truthy :: "jsval \<Rightarrow> bool" where
  "truthy Undefined = False"
| "truthy (Str s) = (s \<noteq> [])"

text \<open>What a template literal \<^verbatim>\<open>`${v}`\<close> prints for a value.\<close>

fun template :: "jsval \<Rightarrow> string" where
  "template Undefined = ''undefined''"
| "template (Str s) = s"

text \<open>Decimal printing of a number inside a template literal.\<close>

fun show_nat :: "nat \<Rightarrow> string" where
  "show_nat n =
     (if n < 10 then [''0123456789'' ! n]
      else show_nat (n div 10) @ [''0123456789'' ! (n mod 10)])"

declare show_nat.simps [simp del]

definition show_int :: "int \<Rightarrow> string" where
  "show_int i = (if i < 0 then ''-'' @ show_nat (nat (- i)) else show_nat (nat i))"

text \<open>\<^verbatim>\<open>Array.prototype.join\<close> on an array of strings.\<close>

fun join :: "string \<Rightarrow> string list \<Rightarrow> string" where
  "join sep [] = []"
| "join sep [x] = x"
| "join sep (x # y # ys) = x @ sep @ join sep (y # ys)"

text \<open>
  Errors thrown by the runtime or rejected by a provider SDK. A provider error carries
  its message and, when the SDK attached one, the metadata map
  (\<^verbatim>\<open>err.metadata.internalRepr\<close>) as an association list.
\<close>

datatype js_error =
    TypeError
  | ProviderError string "(string \<times> string) list option"

section \<open>FastlyGateway: configuration and client construction\<close>

text \<open>
  A deployer as the gateway reads it: \<^verbatim>\<open>name\<close>, \<^verbatim>\<open>host\<close>,
  \<^verbatim>\<open>basePath\<close>, \<^verbatim>\<open>urlVCL\<close> and \<^verbatim>\<open>customVCL\<close>. The last one
  may be absent from the object, the others are strings.
\<close>

record deployer =
  d_name :: string
  d_host :: string
  d_basePath :: string
  d_urlVCL :: string
  d_customVCL :: jsval

text \<open>The client returned by \<^verbatim>\<open>Fastly(auth, service)\<close> keeps both arguments.\<close>

datatype fastly_client = Fastly jsval jsval

record FastlyGateway =
  service :: jsval
  auth :: jsval
  fastly :: "fastly_client option"
  deployers :: "deployer list"
  checkpath :: string

text \<open>The constructor (lines 15-22).\<close>

definition new_FastlyGateway :: FastlyGateway where
  "new_FastlyGateway =
     \<lparr>service = Undefined, auth = Undefined, fastly = None, deployers = [], checkpath = []\<rparr>"

text \<open>\<^verbatim>\<open>ready()\<close> (lines 24-26).\<close>

definition ready :: "FastlyGateway \<Rightarrow> bool" where
  "ready g = (truthy (service g) \<and> truthy (auth g) \<and> truthy (Str (checkpath g)))"

text \<open>\<^verbatim>\<open>init()\<close> (lines 28-32).\<close>

definition init :: "FastlyGateway \<Rightarrow> FastlyGateway" where
  "init g =
     (if ready g \<and> fastly g = None
      then g\<lparr>fastly := Some (Fastly (auth g) (service g))\<rparr>
      else g)"

text \<open>The builder setters (lines 34-52); each returns the gateway itself.\<close>

definition withAuth :: "jsval \<Rightarrow> FastlyGateway \<Rightarrow> FastlyGateway" where
  "withAuth v g = g\<lparr>auth := v\<rparr>"

definition withServiceID :: "jsval \<Rightarrow> FastlyGateway \<Rightarrow> FastlyGateway" where
  "withServiceID v g = g\<lparr>service := v\<rparr>"

definition withDeployer :: "deployer \<Rightarrow> FastlyGateway \<Rightarrow> FastlyGateway" where
  "withDeployer d g = g\<lparr>deployers := deployers g @ [d]\<rparr>"

definition withCheckpath :: "string \<Rightarrow> FastlyGateway \<Rightarrow> FastlyGateway" where
  "withCheckpath v g = g\<lparr>checkpath := v\<rparr>"

text \<open>
  A caller of the gateway can interleave setter calls and \<^verbatim>\<open>init()\<close> in any
  order; \<open>run_calls\<close> applies such a sequence from left to right.
\<close>

datatype builder_call =
    CallWithAuth jsval
  | CallWithServiceID jsval
  | CallWithDeployer deployer
  | CallWithCheckpath string
  | CallInit

fun run_call :: "builder_call \<Rightarrow> FastlyGateway \<Rightarrow> FastlyGateway" where
  "run_call (CallWithAuth v) g = withAuth v g"
| "run_call (CallWithServiceID v) g = withServiceID v g"
| "run_call (CallWithDeployer d) g = withDeployer d g"
| "run_call (CallWithCheckpath v) g = withCheckpath v g"
| "run_call CallInit g = init g"

fun run_calls :: "builder_call list \<Rightarrow> FastlyGateway \<Rightarrow> FastlyGateway" where
  "run_calls [] g = g"
| "run_calls (c # cs) g = run_calls cs (run_call c g)"

section \<open>FastlyGateway: generated VCL\<close>

text \<open>
  \<^verbatim>\<open>selectBackendVCL()\<close> (lines 58-75). The three template literals are kept
  with their line breaks and indentation; \<^verbatim>\<open>map((deployer, i) => ...)\<close> is a map
  over the list paired with its indices. Reading \<^verbatim>\<open>this._deployers[0].name\<close> on an
  empty list throws a TypeError.
\<close>

definition selectBackendVCL :: "FastlyGateway \<Rightarrow> js_error + string" where
  "selectBackendVCL g =
     (let vcl = ''\<newline>      declare local var.i INTEGER;\<newline>      set var.i = randomint(0, ''
                @ show_int (int (length (deployers g)) - 1)
                @ '');\<newline>\<newline>      if (false) {}'';
          middle = map (\<lambda>(i, deployer).
                ''if(var.i <= '' @ show_nat i @ '' && backend.F_'' @ d_name deployer
                @ ''.healthy) {\<newline>      set req.backend = F_'' @ d_name deployer
                @ '';\<newline>    }'')
              (enumerate 0 (deployers g))
      in case deployers g of
           [] \<Rightarrow> Inl TypeError
         | d0 # _ \<Rightarrow>
             (let fallback = ''{\<newline>      set req.backend = F_'' @ d_name d0
                    @ '';\<newline>      '' @ template (d_customVCL d0) @ ''\<newline>    }''
              in Inr (join '' else '' ([vcl] @ middle @ [fallback]))))"

text \<open>\<^verbatim>\<open>setURLVCL()\<close> (lines 77-83).\<close>

definition setURLVCL :: "FastlyGateway \<Rightarrow> string" where
  "setURLVCL g =
     join ''\<newline>'' (map (\<lambda>deployer.
        ''\<newline>      if (req.backend == F_'' @ d_name deployer
        @ '') {\<newline>        set bereq.url = '' @ d_urlVCL deployer
        @ '';\<newline>      }\<newline>      '') (deployers g))"

subsection \<open>The structure of the generated backend selection\<close>

text \<open>
  The text of \<^verbatim>\<open>selectBackendVCL()\<close> is an \<^verbatim>\<open>if / else if / else\<close> chain
  of VCL. Its syntax tree: the bounds of the random draw, the guarded branches in
  order, and the final \<^verbatim>\<open>else\<close> block. \<open>IfFalse\<close> is the opening
  \<^verbatim>\<open>if (false) {}\<close>; \<open>IfDrawHealthy i b\<close> is
  \<^verbatim>\<open>if(var.i <= i && backend.F_b.healthy) { set req.backend = F_b; }\<close>.
\<close>

datatype vcl_branch = IfFalse | IfDrawHealthy nat string

record backend_selection =
  draw_lo :: int
  draw_hi :: int
  branches :: "vcl_branch list"
  fallback_backend :: string
  fallback_custom :: string

text \<open>The printer of the syntax tree, with the spacing of the source's templates.\<close>

fun print_branch :: "vcl_branch \<Rightarrow> string" where
  "print_branch IfFalse = ''if (false) {}''"
| "print_branch (IfDrawHealthy i b) =
     ''if(var.i <= '' @ show_nat i @ '' && backend.F_'' @ b
     @ ''.healthy) {\<newline>      set req.backend = F_'' @ b @ '';\<newline>    }''"

fun print_chain :: "vcl_branch list \<Rightarrow> string" where
  "print_chain [] = []"
| "print_chain (b # bs) = print_branch b @ '' else '' @ print_chain bs"

definition print_selection :: "backend_selection \<Rightarrow> string" where
  "print_selection s =
     ''\<newline>      declare local var.i INTEGER;\<newline>      set var.i = randomint(''
     @ show_int (draw_lo s) @ '', '' @ show_int (draw_hi s) @ '');\<newline>\<newline>      ''
     @ print_chain (branches s)
     @ ''{\<newline>      set req.backend = F_'' @ fallback_backend s
     @ '';\<newline>      '' @ fallback_custom s @ ''\<newline>    }''"

text \<open>
  The syntax tree that \<^verbatim>\<open>selectBackendVCL()\<close> prints for a deployer list;
  there is none for the empty list, where the method throws.
\<close>

fun selection_of :: "deployer list \<Rightarrow> backend_selection option" where
  "selection_of [] = None"
| "selection_of (d0 # ds) =
     Some \<lparr>draw_lo = 0,
           draw_hi = int (length (d0 # ds)) - 1,
           branches = IfFalse # map (\<lambda>(i, d). IfDrawHealthy i (d_name d)) (enumerate 0 (d0 # ds)),
           fallback_backend = d_name d0,
           fallback_custom = template (d_customVCL d0)\<rparr>"

text \<open>
  Running the chain for a draw \<open>i\<close> of \<^verbatim>\<open>randomint\<close> and a health status per
  backend name: an \<^verbatim>\<open>else if\<close> chain executes the first branch whose condition
  holds, and the \<^verbatim>\<open>else\<close> block when none does.
\<close>

datatype routed = ByBranch nat string | ByFallback string

fun first_match :: "(string \<Rightarrow> bool) \<Rightarrow> int \<Rightarrow> vcl_branch list \<Rightarrow> (nat \<times> string) option" where
  "first_match healthy i [] = None"
| "first_match healthy i (IfFalse # bs) = first_match healthy i bs"
| "first_match healthy i (IfDrawHealthy k b # bs) =
     (if i \<le> int k \<and> healthy b then Some (k, b) else first_match healthy i bs)"

definition route :: "(string \<Rightarrow> bool) \<Rightarrow> int \<Rightarrow> backend_selection \<Rightarrow> routed" where
  "route healthy i s =
     (case first_match healthy i (branches s) of
        Some (k, b) \<Rightarrow> ByBranch k b
      | None \<Rightarrow> ByFallback (fallback_backend s))"

subsection \<open>Reading the generated URL rewrite back\<close>

text \<open>
  The text of \<^verbatim>\<open>setURLVCL()\<close> is read line by line: a line
  \<^verbatim>\<open>      if (req.backend == F_X) {\<close> opens the branch of backend \<open>X\<close>, a line
  \<^verbatim>\<open>        set bereq.url = E;\<close> assigns the expression \<open>E\<close>.
\<close>

fun split_lines :: "string \<Rightarrow> string list" where
  "split_lines [] = [[]]"
| "split_lines (c # cs) =
     (if c = CHR ''\<newline>'' then [] # split_lines cs
      else (case split_lines cs of
              [] \<Rightarrow> [[c]]
            | l # ls \<Rightarrow> (c # l) # ls))"




section \<open>FastlyGateway: the deploy transaction\<close>

text \<open>
  The objects \<^verbatim>\<open>deploy()\<close> hands to the Fastly client (lines 90-174), field by
  field, and the client calls that carry them. Every call takes the version number that
  \<^verbatim>\<open>transact\<close> passes to its callback.
\<close>

record condition =
  cn_name :: string
  cn_statement :: string
  cn_type :: string

record healthcheck =
  hc_check_interval :: nat
  hc_expected_response :: nat
  hc_host :: string
  hc_http_version :: string
  hc_method :: string
  hc_initial :: nat
  hc_name :: string
  hc_path :: string
  hc_threshold :: nat
  hc_timeout :: nat
  hc_window :: nat

record backend =
  be_hostname :: string
  be_ssl_cert_hostname :: string
  be_ssl_sni_hostname :: string
  be_address :: string
  be_override_host :: string
  be_name :: string
  be_healthcheck :: string
  be_error_threshold :: nat
  be_first_byte_timeout :: nat
  be_weight :: nat
  be_connect_timeout :: nat
  be_port :: nat
  be_between_bytes_timeout :: nat
  be_shield :: string
  be_max_conn :: nat
  be_use_ssl :: bool
  be_request_condition :: string

record snippet =
  sn_name :: string
  sn_priority :: nat
  sn_dynamic :: nat
  sn_type :: string
  sn_content :: string

datatype fastly_call =
    WriteCondition nat string condition
  | WriteHealthcheck nat string healthcheck
  | CreateBackend nat backend
  | UpdateBackend nat string backend
  | WriteSnippet nat string snippet

text \<open>
  The Fastly service is outside the program: \<open>api c\<close> is what the service answers to
  the call \<open>c\<close>, \<open>None\<close> when the promise resolves and \<open>Some e\<close> when it rejects
  with \<open>e\<close>.
\<close>

type_synonym fastly_api = "fastly_call \<Rightarrow> js_error option"

text \<open>The health check object of a deployer (lines 98-110).\<close>

definition healthcheck_of :: "FastlyGateway \<Rightarrow> deployer \<Rightarrow> healthcheck" where
  "healthcheck_of g deployer =
     \<lparr>hc_check_interval = 60000,
      hc_expected_response = 200,
      hc_host = d_host deployer,
      hc_http_version = ''1.1'',
      hc_method = ''GET'',
      hc_initial = 1,
      hc_name = d_name deployer @ ''Check'',
      hc_path = d_basePath deployer @ checkpath g,
      hc_threshold = 1,
      hc_timeout = 5000,
      hc_window = 2\<rparr>"

text \<open>The backend object of a deployer (lines 116-134).\<close>

definition backend_of :: "deployer \<Rightarrow> backend" where
  "backend_of deployer =
     \<lparr>be_hostname = d_host deployer,
      be_ssl_cert_hostname = d_host deployer,
      be_ssl_sni_hostname = d_host deployer,
      be_address = d_host deployer,
      be_override_host = d_host deployer,
      be_name = d_name deployer,
      be_healthcheck = d_name deployer @ ''Check'',
      be_error_threshold = 0,
      be_first_byte_timeout = 60000,
      be_weight = 100,
      be_connect_timeout = 5000,
      be_port = 443,
      be_between_bytes_timeout = 10000,
      be_shield = [],
      be_max_conn = 200,
      be_use_ssl = True,
      be_request_condition = ''false''\<rparr>"

text \<open>
  \<^verbatim>\<open>await Promise.all(calls)\<close>: all calls of the batch are issued; the batch throws
  when one of them rejects (here the first of the list that does).
\<close>

definition await_all :: "fastly_api \<Rightarrow> fastly_call list \<Rightarrow> js_error option" where
  "await_all api calls = (case List.map_filter api calls of [] \<Rightarrow> None | e # _ \<Rightarrow> Some e)"

text \<open>
  A sequence of awaited calls: each is issued after the one before it resolved, and the
  first rejection ends the sequence.
\<close>

fun await_each :: "fastly_api \<Rightarrow> fastly_call list \<Rightarrow> fastly_call list \<times> js_error option" where
  "await_each api [] = ([], None)"
| "await_each api (c # cs) =
     (case api c of
        Some e \<Rightarrow> ([c], Some e)
      | None \<Rightarrow> (case await_each api cs of (issued, r) \<Rightarrow> (c # issued, r)))"

text \<open>
  The callback of \<^verbatim>\<open>transact\<close> (lines 88-175): the calls it issues, in order, and
  how it ends. A backend is created and, when the creation rejects, updated instead
  (lines 135-141); the creations of a batch are all issued before any update. The
  content of the \<^verbatim>\<open>backend\<close> snippet is computed before the snippet is written, so
  a throwing \<^verbatim>\<open>selectBackendVCL()\<close> ends the callback before any snippet call.
\<close>

definition transaction :: "fastly_api \<Rightarrow> nat \<Rightarrow> FastlyGateway \<Rightarrow> fastly_call list \<times> (js_error + unit)" where
  "transaction api newversion g =
     (let cond = WriteCondition newversion ''false''
            \<lparr>cn_name = ''false'', cn_statement = ''false'', cn_type = ''request''\<rparr>
      in case api cond of
        Some e \<Rightarrow> ([cond], Inl e)
      | None \<Rightarrow>
     (let checks = map (\<lambda>healthcheck. WriteHealthcheck newversion (hc_name healthcheck) healthcheck)
            (map (healthcheck_of g) (deployers g))
      in case await_all api checks of
        Some e \<Rightarrow> (cond # checks, Inl e)
      | None \<Rightarrow>
     (let backends = map backend_of (deployers g);
          creates = map (CreateBackend newversion) backends;
          updates = map (\<lambda>backend. UpdateBackend newversion (be_name backend) backend)
            (filter (\<lambda>backend. api (CreateBackend newversion backend) \<noteq> None) backends)
      in case await_all api updates of
        Some e \<Rightarrow> (cond # checks @ creates @ updates, Inl e)
      | None \<Rightarrow>
     (case selectBackendVCL g of
        Inl e \<Rightarrow> (cond # checks @ creates @ updates, Inl e)
      | Inr vcl \<Rightarrow>
     (case await_each api
        [WriteSnippet newversion ''backend''
           \<lparr>sn_name = ''backend'', sn_priority = 10, sn_dynamic = 0, sn_type = ''recv'',
            sn_content = vcl\<rparr>,
         WriteSnippet newversion ''missurl''
           \<lparr>sn_name = ''missurl'', sn_priority = 10, sn_dynamic = 0, sn_type = ''miss'',
            sn_content = setURLVCL g\<rparr>,
         WriteSnippet newversion ''passurl''
           \<lparr>sn_name = ''passurl'', sn_priority = 10, sn_dynamic = 0, sn_type = ''miss'',
            sn_content = setURLVCL g\<rparr>,
         WriteSnippet newversion ''logurl''
           \<lparr>sn_name = ''logurl'', sn_priority = 10, sn_dynamic = 0, sn_type = ''fetch'',
            sn_content = ''set beresp.http.X-Backend-URL = bereq.url;\<newline>        set beresp.http.X-Backend-Name = req.backend;''\<rparr>]
      of (snippets, r) \<Rightarrow>
        (cond # checks @ creates @ updates @ snippets,
         case r of Some e \<Rightarrow> Inl e | None \<Rightarrow> Inr ()))))))"

text \<open>
  \<^verbatim>\<open>deploy()\<close> (lines 85-176): the log line, then the transaction on the client.
  Without a client (\<^verbatim>\<open>_fastly\<close> is null) the call of \<^verbatim>\<open>transact\<close> throws a
  TypeError. The result is the log, the client calls and the outcome.
\<close>

definition deploy :: "fastly_api \<Rightarrow> nat \<Rightarrow> FastlyGateway \<Rightarrow> string list \<times> fastly_call list \<times> (js_error + unit)" where
  "deploy api newversion g =
     (case fastly g of
        None \<Rightarrow> ([''Set up Fastly Gateway''], [], Inl TypeError)
      | Some _ \<Rightarrow>
          (case transaction api newversion g of
             (calls, r) \<Rightarrow> ([''Set up Fastly Gateway''], calls, r)))"

text \<open>What a list of client calls wrote: the health checks, the snippets, and the
  backends whose creation or update the service accepted.\<close>

fun healthchecks_written :: "fastly_call list \<Rightarrow> healthcheck list" where
  "healthchecks_written [] = []"
| "healthchecks_written (WriteHealthcheck v n h # cs) = h # healthchecks_written cs"
| "healthchecks_written (_ # cs) = healthchecks_written cs"

fun snippets_written :: "fastly_call list \<Rightarrow> snippet list" where
  "snippets_written [] = []"
| "snippets_written (WriteSnippet v n s # cs) = s # snippets_written cs"
| "snippets_written (_ # cs) = snippets_written cs"

fun backends_written :: "fastly_api \<Rightarrow> fastly_call list \<Rightarrow> backend list" where
  "backends_written api [] = []"
| "backends_written api (CreateBackend v b # cs) =
     (if api (CreateBackend v b) = None then b # backends_written api cs
      else backends_written api cs)"
| "backends_written api (UpdateBackend v n b # cs) =
     (if api (UpdateBackend v n b) = None then b # backends_written api cs
      else backends_written api cs)"
| "backends_written api (_ # cs) = backends_written api cs"

section \<open>GoogleDeployer\<close>

text \<open>
  The deployer reads two configurations: \<^verbatim>\<open>this.cfg\<close>, the base configuration of
  the build (package name, function name, version, ...), and \<^verbatim>\<open>this._cfg\<close>, the
  Google configuration (email, key file, project id, region). \<open>updatedAt\<close> is
  a JavaScript number that the deployer only prints; the field holds the text that the
  template literal \<^verbatim>\<open>`${this.cfg.updatedAt}`\<close> prints for it.
\<close>

record base_config =
  packageName :: string
  cfg_name :: string
  pkgJson_description :: string
  nodeVersion :: string
  memory :: nat
  version :: string
  updatedAt :: string
  params :: "(string \<times> string) list"

record google_config =
  email :: string
  keyFile :: string
  projectID :: string
  region :: string

text \<open>
  \<^verbatim>\<open>String.prototype.replace\<close>: with the regular expression \<^verbatim>\<open>/\./g\<close> every
  dot is replaced; with the string pattern \<^verbatim>\<open>'@'\<close> only the first occurrence is.
\<close>

definition replace_every :: "char \<Rightarrow> char \<Rightarrow> string \<Rightarrow> string" where
  "replace_every a b s = map (\<lambda>c. if c = a then b else c) s"

fun replace_first :: "char \<Rightarrow> char \<Rightarrow> string \<Rightarrow> string" where
  "replace_first a b [] = []"
| "replace_first a b (c # cs) = (if c = a then b # cs else c # replace_first a b cs)"

text \<open>\<^verbatim>\<open>get fullFunctionName()\<close> (lines 75-79).\<close>

definition fullFunctionName :: "base_config \<Rightarrow> string" where
  "fullFunctionName c =
     replace_first (CHR ''@'') (CHR ''_'')
       (replace_every (CHR ''.'') (CHR ''_'') (packageName c @ ''--'' @ cfg_name c))"

text \<open>
  \<^verbatim>\<open>encodeURIComponent\<close> on a string of bytes: letters, digits and
  \<^verbatim>\<open>- _ . ! ~ * ' ( )\<close> stay, every other byte becomes \<^verbatim>\<open>%XX\<close>.
\<close>

definition hex_digit :: "nat \<Rightarrow> char" where
  "hex_digit n = ''0123456789ABCDEF'' ! (n mod 16)"

definition uri_unreserved :: "char \<Rightarrow> bool" where
  "uri_unreserved c =
     (c \<in> set ''ABCDEFGHIJKLMNOPQRSTUVWXYZabcdefghijklmnopqrstuvwxyz0123456789-_.!~*()''
      \<or> c = CHR 0x27)"

definition encodeURIComponent :: "string \<Rightarrow> string" where
  "encodeURIComponent s =
     concat (map (\<lambda>c. if uri_unreserved c then [c]
                       else [CHR ''%'', hex_digit (of_char c div 16), hex_digit (of_char c)]) s)"

text \<open>The function object sent to the provider (lines 95-128) and what comes back.\<close>

record cloud_function =
  cf_name :: string
  cf_serviceAccountEmail :: string
  cf_description :: string
  cf_entryPoint :: string
  cf_runtime :: string
  cf_availableMemoryMb :: nat
  cf_labels :: "(string \<times> string) list"
  cf_environmentVariables :: "(string \<times> string) list"
  cf_httpsTrigger :: unit
  cf_sourceUploadUrl :: jsval

text \<open>
  The resource a finished operation returns. Only \<^verbatim>\<open>httpsTrigger.url\<close> is read:
  \<open>None\<close> is a resource without \<^verbatim>\<open>httpsTrigger\<close>, \<open>Some u\<close> one whose trigger has
  the url \<open>u\<close>.
\<close>

record function_resource =
  fr_httpsTrigger :: "jsval option"

type_synonym iam_policy = "(string \<times> string list) list"

text \<open>
  The provider client is outside the program. Each field is what the provider answers
  to that call: \<open>Inl e\<close> (or \<open>Some e\<close>) when the promise rejects with \<open>e\<close>. An
  operation handle is the outcome of its \<^verbatim>\<open>promise()\<close>.
\<close>

type_synonym operation = "js_error + function_resource"

record gcf_client =
  rpc_getFunction :: "string \<Rightarrow> js_error option"
  rpc_updateFunction :: "cloud_function \<Rightarrow> js_error + operation"
  rpc_createFunction :: "string \<Rightarrow> cloud_function \<Rightarrow> js_error + operation"
  rpc_setIamPolicy :: "string \<Rightarrow> iam_policy \<Rightarrow> js_error option"

record GoogleDeployer =
  cfg :: base_config
  google_cfg :: google_config
  client :: "gcf_client option"
  uploadURL :: jsval
  deployed_function :: "function_resource option"
  functionURL :: jsval

text \<open>What the deployer does that others can see: log lines and provider calls.\<close>

datatype log_arg = LStr string | LErr js_error

datatype google_event =
    LogInfo string
  | LogError "log_arg list"
  | CallGetFunction string
  | CallUpdateFunction cloud_function
  | CallCreateFunction string cloud_function
  | CallOperationPromise
  | CallSetIamPolicy string iam_policy

text \<open>The resource name (line 82) and the location (lines 132, 142).\<close>

definition location :: "GoogleDeployer \<Rightarrow> string" where
  "location d =
     ''projects/'' @ projectID (google_cfg d) @ ''/locations/'' @ region (google_cfg d)"

definition function_path :: "GoogleDeployer \<Rightarrow> string" where
  "function_path d =
     ''projects/'' @ projectID (google_cfg d) @ ''/locations/'' @ region (google_cfg d)
     @ ''/functions/'' @ fullFunctionName (cfg d)"

text \<open>The object \<^verbatim>\<open>func\<close> (lines 95-128).\<close>

definition func :: "GoogleDeployer \<Rightarrow> cloud_function" where
  "func d =
     \<lparr>cf_name = function_path d,
      cf_serviceAccountEmail = email (google_cfg d),
      cf_description = pkgJson_description (cfg d),
      cf_entryPoint = ''google'',
      cf_runtime = ''nodejs'' @ nodeVersion (cfg d),
      cf_availableMemoryMb = memory (cfg d),
      cf_labels =
        [(''pkgversion'', encodeURIComponent (replace_every (CHR ''.'') (CHR ''_'') (version (cfg d)))),
         (''updated'', updatedAt (cfg d))],
      cf_environmentVariables = params (cfg d),
      cf_httpsTrigger = (),
      cf_sourceUploadUrl = uploadURL d\<rparr>"

text \<open>
  The \<^verbatim>\<open>catch\<close> block of the second \<^verbatim>\<open>try\<close> (lines 166-173).
  \<open>diagnostic err k\<close> is \<^verbatim>\<open>err.metadata.internalRepr.get(k).toString()\<close>: it
  throws a TypeError (\<open>None\<close>) when the error has no metadata or the metadata has no
  entry \<open>k\<close>. The argument of a log call is computed before the call.
\<close>

definition diagnostic :: "js_error \<Rightarrow> string \<Rightarrow> string option" where
  "diagnostic err k =
     (case err of
        ProviderError msg (Some internalRepr) \<Rightarrow> map_of internalRepr k
      | _ \<Rightarrow> None)"

definition report_failure :: "js_error \<Rightarrow> google_event list \<times> js_error" where
  "report_failure err =
     (case diagnostic err ''google.rpc.badrequest-bin'' of
        None \<Rightarrow> ([LogError [LErr err]], TypeError)
      | Some bad \<Rightarrow>
          (case diagnostic err ''grpc-status-details-bin'' of
             None \<Rightarrow> ([LogError [LErr err], LogError [LStr ''bad request:'', LStr bad]], TypeError)
           | Some details \<Rightarrow>
               ([LogError [LErr err], LogError [LStr ''bad request:'', LStr bad],
                 LogError [LStr ''details:'', LStr details]], err)))"

text \<open>
  The policy call that ends the second \<^verbatim>\<open>try\<close> block (lines 152-165), after the
  function was stored in \<^verbatim>\<open>this._function\<close>.
\<close>

definition enable_unauthenticated ::
  "gcf_client \<Rightarrow> GoogleDeployer \<Rightarrow> google_event list \<times> GoogleDeployer \<times> js_error option" where
  "enable_unauthenticated c d =
     ([LogInfo ''enabling unauthenticated requests'',
       CallSetIamPolicy (function_path d) [(''roles/cloudfunctions.invoker'', [''allUsers''])]],
      d,
      rpc_setIamPolicy c (function_path d) [(''roles/cloudfunctions.invoker'', [''allUsers''])])"

text \<open>
  The body of the second \<^verbatim>\<open>try\<close> block (lines 95-165): the events, the deployer
  as the block leaves it, and the error the block throws, if any. A null
  \<^verbatim>\<open>_client\<close> makes the first call on it throw a TypeError.
\<close>

definition create_or_update ::
  "bool \<Rightarrow> GoogleDeployer \<Rightarrow> google_event list \<times> GoogleDeployer \<times> js_error option" where
  "create_or_update exists d =
     (case client d of
        None \<Rightarrow> ([], d, Some TypeError)
      | Some c \<Rightarrow>
          if exists then
            (case rpc_updateFunction c (func d) of
               Inl e \<Rightarrow> ([CallUpdateFunction (func d)], d, Some e)
             | Inr op \<Rightarrow>
                 (case op of
                    Inl e \<Rightarrow>
                      ([CallUpdateFunction (func d), LogInfo ''updating existing function'',
                        CallOperationPromise], d, Some e)
                  | Inr res \<Rightarrow>
                      (case enable_unauthenticated c (d\<lparr>deployed_function := Some res\<rparr>) of
                         (evs, d', r) \<Rightarrow>
                           ([CallUpdateFunction (func d), LogInfo ''updating existing function'',
                             CallOperationPromise, LogInfo ''function deployed''] @ evs, d', r))))
          else
            (case rpc_createFunction c (location d) (func d) of
               Inl e \<Rightarrow> ([CallCreateFunction (location d) (func d)], d, Some e)
             | Inr op \<Rightarrow>
                 (case op of
                    Inl e \<Rightarrow>
                      ([CallCreateFunction (location d) (func d),
                        LogInfo ''creating function, please wait (Google deployments are slow).'',
                        CallOperationPromise], d, Some e)
                  | Inr res \<Rightarrow>
                      (case enable_unauthenticated c (d\<lparr>deployed_function := Some res\<rparr>) of
                         (evs, d', r) \<Rightarrow>
                           ([CallCreateFunction (location d) (func d),
                             LogInfo ''creating function, please wait (Google deployments are slow).'',
                             CallOperationPromise, LogInfo ''function deployed''] @ evs, d', r)))))"

text \<open>
  The first \<^verbatim>\<open>try\<close> block (lines 83-92): whether the function exists. Any throw of
  the lookup, a null client included, ends in \<^verbatim>\<open>exists = false\<close>.
\<close>

definition lookup :: "GoogleDeployer \<Rightarrow> google_event list \<times> bool" where
  "lookup d =
     (case client d of
        None \<Rightarrow> ([], False)
      | Some c \<Rightarrow>
          (case rpc_getFunction c (function_path d) of
             None \<Rightarrow> ([CallGetFunction (function_path d)], True)
           | Some e \<Rightarrow> ([CallGetFunction (function_path d)], False)))"

text \<open>
  \<^verbatim>\<open>createFunction()\<close> (lines 81-176): all events in order, the deployer
  afterwards, and the error thrown to the caller, if any. The last statement reads
  \<^verbatim>\<open>this._function.httpsTrigger.url\<close> outside both \<^verbatim>\<open>try\<close> blocks.
\<close>

definition createFunction :: "GoogleDeployer \<Rightarrow> google_event list \<times> GoogleDeployer \<times> js_error option" where
  "createFunction d =
     (case lookup d of
        (evs1, exists) \<Rightarrow>
          (case create_or_update exists d of
             (evs2, d', Some err) \<Rightarrow>
               (case report_failure err of
                  (evs3, thrown) \<Rightarrow> (evs1 @ evs2 @ evs3, d', Some thrown))
           | (evs2, d', None) \<Rightarrow>
               (case deployed_function d' of
                  None \<Rightarrow> (evs1 @ evs2, d', Some TypeError)
                | Some res \<Rightarrow>
                    (case fr_httpsTrigger res of
                       None \<Rightarrow> (evs1 @ evs2, d', Some TypeError)
                     | Some url \<Rightarrow> (evs1 @ evs2, d'\<lparr>functionURL := url\<rparr>, None)))))"

text \<open>
  \<^verbatim>\<open>test()\<close> (lines 188-198). \<^verbatim>\<open>testRequest\<close> is inherited from the base
  deployer, whose code is not part of these sources; it is a parameter here, and
  \<^verbatim>\<open>test()\<close> returns what it returns for the request built.
\<close>

record test_request =
  tr_url :: string
  tr_idHeader :: string
  tr_retry404 :: nat

definition test :: "(test_request \<Rightarrow> 'r) \<Rightarrow> GoogleDeployer \<Rightarrow> 'r" where
  "test testRequest d =
     (let url = (if truthy (functionURL d) then template (functionURL d)
                 else ''https://'' @ region (google_cfg d) @ ''-'' @ projectID (google_cfg d)
                      @ ''.cloudfunctions.net/'' @ fullFunctionName (cfg d))
      in testRequest \<lparr>tr_url = url, tr_idHeader = ''X-Cloud-Trace-Context'', tr_retry404 = 1\<rparr>)"

section \<open>Example inputs\<close>

text \<open>
  The gateway of the specification's scenario: one deployer \<open>g\<close> with host
  \<^verbatim>\<open>g.example.com\<close>, base path \<^verbatim>\<open>/\<close>, the URL expression \<^verbatim>\<open>"/x"\<close>
  (quotes included) and no custom VCL, behind the check path \<^verbatim>\<open>/health\<close>. Service
  id, token and client are left open.
\<close>

definition scenario_deployer :: deployer where
  "scenario_deployer =
     \<lparr>d_name = ''g'', d_host = ''g.example.com'', d_basePath = ''/'',
      d_urlVCL = [CHR 0x22, CHR ''/'', CHR ''x'', CHR 0x22], d_customVCL = Undefined\<rparr>"

definition scenario_gateway :: "jsval \<Rightarrow> jsval \<Rightarrow> fastly_client \<Rightarrow> FastlyGateway" where
  "scenario_gateway s a c =
     \<lparr>service = s, auth = a, fastly = Some c, deployers = [scenario_deployer],
      checkpath = ''/health''\<rparr>"

text \<open>
  A Google deployer for the function \<^verbatim>\<open>fn@1.2.3\<close> of the package \<^verbatim>\<open>pkg\<close>,
  before any deployment, on a client that does not know the function: the lookup rejects,
  creation and policy call succeed.
\<close>

definition example_client :: gcf_client where
  "example_client =
     \<lparr>rpc_getFunction = (\<lambda>name. Some (ProviderError ''NOT_FOUND'' None)),
      rpc_updateFunction = (\<lambda>f. Inl (ProviderError ''NOT_FOUND'' None)),
      rpc_createFunction = (\<lambda>l f. Inr (Inr \<lparr>fr_httpsTrigger = Some (Str ''https://live.example/fn'')\<rparr>)),
      rpc_setIamPolicy = (\<lambda>r p. None)\<rparr>"

definition example_deployer :: GoogleDeployer where
  "example_deployer =
     \<lparr>cfg = \<lparr>packageName = ''pkg'', cfg_name = ''fn@1.2.3'', pkgJson_description = ''example'',
              nodeVersion = ''12'', memory = 256, version = ''1.2.3'',
              updatedAt = ''1600000000000'',
              params = []\<rparr>,
      google_cfg = \<lparr>email = ''deploy@example.com'', keyFile = ''key.json'', projectID = ''proj'',
              region = ''us-central1''\<rparr>,
      client = Some example_client,
      uploadURL = Str ''https://upload.example/zip'',
      deployed_function = None,
      functionURL = Undefined\<rparr>"

section \<open>Properties of the client construction\<close>

lemma run_call_keeps_client:
  "fastly g = Some c \<Longrightarrow> fastly (run_call k g) = Some c"
  by (cases k) (simp_all add: withAuth_def withServiceID_def withDeployer_def
      withCheckpath_def init_def)

lemma run_calls_keeps_client:
  "fastly g = Some c \<Longrightarrow> fastly (run_calls ks g) = Some c"
proof (induction ks arbitrary: g)
  case Nil
  then show ?case by simp
next
  case (Cons k ks)
  from Cons.prems have "fastly (run_call k g) = Some c"
    by (rule run_call_keeps_client)
  then show ?case by (simp add: Cons.IH)
qed

text \<open>
  Claim C10. \<^verbatim>\<open>init()\<close> constructs the client only when \<^verbatim>\<open>ready()\<close> holds
  and no client exists yet: a gateway that is not ready, or that has a client, is
  returned as it is, and a ready gateway without a client gets the client built from
  the current auth and service id. \<^verbatim>\<open>init()\<close> is idempotent, and once a client
  is set it survives every later sequence of setter and \<^verbatim>\<open>init()\<close> calls,
  whatever auth or service id the setters install.
\<close>

theorem init_conditional_idempotent:
  "(\<not> ready g \<longrightarrow> init g = g)
   \<and> (fastly g \<noteq> None \<longrightarrow> init g = g)
   \<and> (ready g \<and> fastly g = None \<longrightarrow>
        init g = g\<lparr>fastly := Some (Fastly (auth g) (service g))\<rparr>)
   \<and> init (init g) = init g
   \<and> (fastly g = Some c \<longrightarrow> fastly (run_calls ks g) = Some c)"
proof -
  have "init (init g) = init g"
    by (simp add: init_def)
  moreover have "fastly g = Some c \<longrightarrow> fastly (run_calls ks g) = Some c"
    using run_calls_keeps_client by blast
  ultimately show ?thesis
    by (auto simp add: init_def)
qed

theorem init_conditional_idempotent_witness:
  "fastly (init (withCheckpath ''/health'' (withServiceID (Str ''svc'')
       (withAuth (Str ''tok'') new_FastlyGateway))))
     = Some (Fastly (Str ''tok'') (Str ''svc''))
   \<and> fastly (run_calls [CallWithAuth (Str ''other''), CallWithServiceID Undefined, CallInit]
        (init (withCheckpath ''/health'' (withServiceID (Str ''svc'')
          (withAuth (Str ''tok'') new_FastlyGateway)))))
     = Some (Fastly (Str ''tok'') (Str ''svc''))
   \<and> init new_FastlyGateway = new_FastlyGateway"
proof -
  let ?g = "withCheckpath ''/health'' (withServiceID (Str ''svc'')
       (withAuth (Str ''tok'') new_FastlyGateway))"
  have r: "ready ?g \<and> fastly ?g = None"
    by (simp add: ready_def withCheckpath_def withServiceID_def withAuth_def
        new_FastlyGateway_def)
  have a: "auth ?g = Str ''tok''" "service ?g = Str ''svc''"
    by (simp_all add: withCheckpath_def withServiceID_def withAuth_def)
  from r init_conditional_idempotent [of ?g]
  have i: "init ?g = ?g\<lparr>fastly := Some (Fastly (auth ?g) (service ?g))\<rparr>"
    by blast
  then have f: "fastly (init ?g) = Some (Fastly (Str ''tok'') (Str ''svc''))"
    by (simp add: a)
  have n: "\<not> ready new_FastlyGateway"
    by (simp add: ready_def new_FastlyGateway_def)
  from f init_conditional_idempotent [of "init ?g" "Fastly (Str ''tok'') (Str ''svc'')"
      "[CallWithAuth (Str ''other''), CallWithServiceID Undefined, CallInit]"]
  have "fastly (run_calls [CallWithAuth (Str ''other''), CallWithServiceID Undefined, CallInit]
      (init ?g)) = Some (Fastly (Str ''tok'') (Str ''svc''))"
    by blast
  moreover from n init_conditional_idempotent [of new_FastlyGateway]
  have "init new_FastlyGateway = new_FastlyGateway"
    by blast
  ultimately show ?thesis
    using f by simp
qed

section \<open>Properties of the generated backend selection\<close>

text \<open>Joining with a separator, when the last element is singled out.\<close>

lemma join_Cons: "ys \<noteq> [] \<Longrightarrow> join sep (x # ys) = x @ sep @ join sep ys"
  by (cases ys) simp_all

lemma join_snoc: "join sep (xs @ [z]) = concat (map (\<lambda>x. x @ sep) xs) @ z"
  by (induction xs) (simp_all add: join_Cons)

lemma print_chain_concat: "print_chain bs = concat (map (\<lambda>b. print_branch b @ '' else '') bs)"
  by (induction bs) simp_all

lemma show_int_0: "show_int 0 = ''0''"
  by (simp add: show_int_def show_nat.simps)

lemma selectBackendVCL_prints:
  "selectBackendVCL g =
     (case selection_of (deployers g) of
        None \<Rightarrow> Inl TypeError
      | Some s \<Rightarrow> Inr (print_selection s))"
proof (cases "deployers g")
  case Nil
  then show ?thesis by (simp add: selectBackendVCL_def)
next
  case (Cons d0 ds)
  have "join '' else '' ((v # m) @ [f]) = v @ '' else '' @ concat (map (\<lambda>x. x @ '' else '') m) @ f"
    for v f :: string and m
    using join_snoc [of "'' else ''" "v # m" f] by simp
  with Cons show ?thesis 
    by (simp add: selectBackendVCL_def print_selection_def print_chain_concat show_int_0 Let_def
        comp_def case_prod_unfold del: join.simps)
qed

text \<open>
  With every backend healthy the chain stops at the branch whose bound is the draw;
  with none healthy no guarded branch is taken.
\<close>

lemma first_match_all_healthy:
  "\<forall>d\<in>set ds. healthy (d_name d) \<Longrightarrow> int k \<le> i \<Longrightarrow> i < int k + int (length ds) \<Longrightarrow>
   first_match healthy i (map (\<lambda>(j, d). IfDrawHealthy j (d_name d)) (enumerate k ds))
     = Some (nat i, d_name (ds ! (nat i - k)))"
proof (induction ds arbitrary: k)
  case Nil
  then show ?case by simp
next
  case (Cons d ds)
  show ?case
  proof (cases "i = int k")
    case True
    with Cons.prems show ?thesis by simp
  next
    case False
    with Cons.prems have "int (Suc k) \<le> i" "i < int (Suc k) + int (length ds)"
      by simp_all
    with Cons.IH [of "Suc k"] Cons.prems(1)
    have "first_match healthy i (map (\<lambda>(j, d). IfDrawHealthy j (d_name d)) (enumerate (Suc k) ds))
      = Some (nat i, d_name (ds ! (nat i - Suc k)))"
      by simp
    moreover from \<open>int (Suc k) \<le> i\<close> have "nat i - k = Suc (nat i - Suc k)"
      by linarith
    ultimately show ?thesis using False Cons.prems(2) by simp
  qed
qed

lemma first_match_none_healthy:
  "\<forall>d\<in>set ds. \<not> healthy (d_name d) \<Longrightarrow>
   first_match healthy i (map (\<lambda>(j, d). IfDrawHealthy j (d_name d)) (enumerate k ds)) = None"
  by (induction ds arbitrary: k) simp_all

text \<open>
  Claim C1. For a non-empty deployer list of length \<open>N\<close>, the text generated by
  \<^verbatim>\<open>selectBackendVCL()\<close> is the printed form of a selection that draws
  \<^verbatim>\<open>randomint(0, N - 1)\<close>. When all backends are healthy, every draw \<open>i\<close> of that
  range executes exactly the branch with bound \<open>i\<close>, which selects the backend of
  deployer \<open>i\<close>; when no backend is healthy, every draw ends in the final
  \<^verbatim>\<open>else\<close> block, which selects the backend of deployer 0.
\<close>

theorem selectBackendVCL_routes:
  assumes "deployers g \<noteq> []"
  shows "\<exists>s. selection_of (deployers g) = Some s
     \<and> selectBackendVCL g = Inr (print_selection s)
     \<and> draw_lo s = 0 \<and> draw_hi s = int (length (deployers g)) - 1
     \<and> ((\<forall>d\<in>set (deployers g). healthy (d_name d)) \<longrightarrow>
          (\<forall>i. draw_lo s \<le> i \<and> i \<le> draw_hi s \<longrightarrow>
             route healthy i s = ByBranch (nat i) (d_name (deployers g ! nat i))))
     \<and> ((\<forall>d\<in>set (deployers g). \<not> healthy (d_name d)) \<longrightarrow>
          (\<forall>i. route healthy i s = ByFallback (d_name (deployers g ! 0))))"
proof -
  from assms obtain d0 ds where ds: "deployers g = d0 # ds"
    by (cases "deployers g") auto
  define s where "s = \<lparr>draw_lo = 0, draw_hi = int (length (d0 # ds)) - 1,
     branches = IfFalse # map (\<lambda>(i, d). IfDrawHealthy i (d_name d)) (enumerate 0 (d0 # ds)),
     fallback_backend = d_name d0, fallback_custom = template (d_customVCL d0)\<rparr>"
  have sel: "selection_of (deployers g) = Some s"
    by (simp add: ds s_def)
  have printed: "selectBackendVCL g = Inr (print_selection s)"
    by (simp add: selectBackendVCL_prints sel)
  have bounds: "draw_lo s = 0" "draw_hi s = int (length (deployers g)) - 1"
    by (simp_all add: s_def ds)
  have all_up: "route healthy i s = ByBranch (nat i) (d_name (deployers g ! nat i))"
    if "\<forall>d\<in>set (deployers g). healthy (d_name d)" "draw_lo s \<le> i" "i \<le> draw_hi s" for i
  proof -
    from that have "int 0 \<le> i" "i < int 0 + int (length (d0 # ds))"
      by (simp_all add: s_def)
    with that(1) first_match_all_healthy [of "d0 # ds" healthy 0 i]
    have "first_match healthy i (map (\<lambda>(j, d). IfDrawHealthy j (d_name d)) (enumerate 0 (d0 # ds)))
       = Some (nat i, d_name ((d0 # ds) ! nat i))"
      by (simp add: ds)
    then show ?thesis
      by (simp add: route_def s_def ds)
  qed
  have all_down: "route healthy i s = ByFallback (d_name (deployers g ! 0))"
    if "\<forall>d\<in>set (deployers g). \<not> healthy (d_name d)" for i
  proof -
    from that first_match_none_healthy [of "d0 # ds" healthy i 0]
    have "first_match healthy i (map (\<lambda>(j, d). IfDrawHealthy j (d_name d)) (enumerate 0 (d0 # ds))) = None"
      by (simp add: ds)
    then show ?thesis
      by (simp add: route_def s_def ds)
  qed
  from sel printed bounds all_up all_down show ?thesis
    by blast
qed

text \<open>
  The theorem at a gateway with the two deployers \<open>A\<close> and \<open>B\<close>: draw 0 goes to
  \<open>A\<close>, draw 1 to \<open>B\<close>, and with both unhealthy draw 1 falls back to \<open>A\<close>.
\<close>

theorem selectBackendVCL_routes_witness:
  "\<exists>s. selection_of [\<lparr>d_name = ''A'', d_host = ''a.example.com'', d_basePath = ''/a'',
                      d_urlVCL = ''var.a'', d_customVCL = Undefined\<rparr>,
                    \<lparr>d_name = ''B'', d_host = ''b.example.com'', d_basePath = ''/b'',
                      d_urlVCL = ''var.b'', d_customVCL = Undefined\<rparr>] = Some s
     \<and> draw_hi s = 1
     \<and> route (\<lambda>b. True) 0 s = ByBranch 0 ''A''
     \<and> route (\<lambda>b. True) 1 s = ByBranch 1 ''B''
     \<and> route (\<lambda>b. False) 1 s = ByFallback ''A''"
proof -
  let ?g = "\<lparr>service = Undefined, auth = Undefined, fastly = None,
       deployers = [\<lparr>d_name = ''A'', d_host = ''a.example.com'', d_basePath = ''/a'',
                      d_urlVCL = ''var.a'', d_customVCL = Undefined\<rparr>,
                    \<lparr>d_name = ''B'', d_host = ''b.example.com'', d_basePath = ''/b'',
                      d_urlVCL = ''var.b'', d_customVCL = Undefined\<rparr>],
       checkpath = ''/health''\<rparr>"
  have ne: "deployers ?g \<noteq> []" by simp
  from selectBackendVCL_routes [OF ne, of "\<lambda>b. True"]
  obtain s where s: "selection_of (deployers ?g) = Some s" "draw_lo s = 0"
      "draw_hi s = int (length (deployers ?g)) - 1"
      "\<forall>i. draw_lo s \<le> i \<and> i \<le> draw_hi s \<longrightarrow>
          route (\<lambda>b. True) i s = ByBranch (nat i) (d_name (deployers ?g ! nat i))"
    by auto
  from selectBackendVCL_routes [OF ne, of "\<lambda>b. False"] s(1)
  have down: "\<forall>i. route (\<lambda>b. False) i s = ByFallback (d_name (deployers ?g ! 0))"
    by auto
  have "route (\<lambda>b. True) 0 s = ByBranch 0 ''A''" "route (\<lambda>b. True) 1 s = ByBranch 1 ''B''"
    using s(2-4) by (auto dest: spec [of _ 0] spec [of _ 1])
  moreover have "route (\<lambda>b. False) 1 s = ByFallback ''A''"
    using down by simp
  moreover have "draw_hi s = 1" using s(3) by simp
  ultimately show ?thesis using s(1) by simp
qed

text \<open>
  Claim C7. For the deployers \<open>[A, B, C]\<close> in that order, the generated selection has
  \<open>A\<close> in its first guarded branch (bound 0) and again in the final \<^verbatim>\<open>else\<close>
  block, the fallback; \<open>B\<close> and \<open>C\<close> follow with bounds 1 and 2. The text
  generated is shown in full.
\<close>

theorem selectBackendVCL_first_deployer_twice:
  "selection_of [A, B, C] =
     Some \<lparr>draw_lo = 0, draw_hi = 2,
           branches = [IfFalse, IfDrawHealthy 0 (d_name A), IfDrawHealthy 1 (d_name B),
                       IfDrawHealthy 2 (d_name C)],
           fallback_backend = d_name A,
           fallback_custom = template (d_customVCL A)\<rparr>
   \<and> selectBackendVCL (g\<lparr>deployers := [A, B, C]\<rparr>) =
       Inr (''\<newline>      declare local var.i INTEGER;\<newline>      set var.i = randomint(0, 2);\<newline>\<newline>      if (false) {}''
         @ '' else if(var.i <= 0 && backend.F_'' @ d_name A @ ''.healthy) {\<newline>      set req.backend = F_'' @ d_name A @ '';\<newline>    }''
         @ '' else if(var.i <= 1 && backend.F_'' @ d_name B @ ''.healthy) {\<newline>      set req.backend = F_'' @ d_name B @ '';\<newline>    }''
         @ '' else if(var.i <= 2 && backend.F_'' @ d_name C @ ''.healthy) {\<newline>      set req.backend = F_'' @ d_name C @ '';\<newline>    }''
         @ '' else {\<newline>      set req.backend = F_'' @ d_name A @ '';\<newline>      '' @ template (d_customVCL A) @ ''\<newline>    }'')"
  by (simp add: selectBackendVCL_def show_int_def show_nat.simps)

section \<open>Properties of the generated URL rewrite\<close>



lemma split_lines_no_nl: "CHR ''\<newline>'' \<notin> set a \<Longrightarrow> split_lines a = [a]"
  by (induction a) auto















section \<open>Properties of the deploy transaction\<close>

lemma await_all_single: "await_all api [c] = api c"
  by (cases "api c") (simp_all add: await_all_def)

lemma await_all_Nil: "await_all api [] = None"
  by (simp add: await_all_def)

lemma scenario_selection:
  "selectBackendVCL (scenario_gateway s a c) =
     Inr (print_selection \<lparr>draw_lo = 0, draw_hi = 0,
        branches = [IfFalse, IfDrawHealthy 0 ''g''],
        fallback_backend = ''g'', fallback_custom = ''undefined''\<rparr>)"
  by (simp add: selectBackendVCL_prints scenario_gateway_def scenario_deployer_def)

lemma snippets_written_append:
  "snippets_written (xs @ ys) = snippets_written xs @ snippets_written ys"
  by (induction xs rule: snippets_written.induct) simp_all

lemma snippets_written_checks:
  "snippets_written (map (\<lambda>x. WriteHealthcheck v (n x) (h x)) xs) = []"
  by (induction xs) simp_all

lemma snippets_written_creates: "snippets_written (map (\<lambda>x. CreateBackend v (b x)) xs) = []"
  by (induction xs) simp_all

lemma snippets_written_updates:
  "snippets_written (map (\<lambda>x. UpdateBackend v (n x) (b x)) xs) = []"
  by (induction xs) simp_all

lemma await_each_complete:
  "await_each api cs = (issued, None) \<Longrightarrow> issued = cs"
  by (induction cs arbitrary: issued) (auto split: option.splits prod.splits)

lemma deploy_complete_snippets:
  assumes "deploy api v g = (lg, calls, Inr ())"
  shows "map (\<lambda>sn. (sn_name sn, sn_priority sn, sn_dynamic sn, sn_type sn)) (snippets_written calls)
     = [(''backend'', 10, 0, ''recv''), (''missurl'', 10, 0, ''miss''),
        (''passurl'', 10, 0, ''miss''), (''logurl'', 10, 0, ''fetch'')]"
proof -
  from assms obtain vcl issued where
    calls: "calls = WriteCondition v ''false''
            \<lparr>cn_name = ''false'', cn_statement = ''false'', cn_type = ''request''\<rparr>
        # map (\<lambda>h. WriteHealthcheck v (hc_name h) h) (map (healthcheck_of g) (deployers g))
        @ map (CreateBackend v) (map backend_of (deployers g))
        @ map (\<lambda>b. UpdateBackend v (be_name b) b)
            (filter (\<lambda>b. api (CreateBackend v b) \<noteq> None) (map backend_of (deployers g)))
        @ issued"
    and issued: "await_each api
        [WriteSnippet v ''backend''
           \<lparr>sn_name = ''backend'', sn_priority = 10, sn_dynamic = 0, sn_type = ''recv'',
            sn_content = vcl\<rparr>,
         WriteSnippet v ''missurl''
           \<lparr>sn_name = ''missurl'', sn_priority = 10, sn_dynamic = 0, sn_type = ''miss'',
            sn_content = setURLVCL g\<rparr>,
         WriteSnippet v ''passurl''
           \<lparr>sn_name = ''passurl'', sn_priority = 10, sn_dynamic = 0, sn_type = ''miss'',
            sn_content = setURLVCL g\<rparr>,
         WriteSnippet v ''logurl''
           \<lparr>sn_name = ''logurl'', sn_priority = 10, sn_dynamic = 0, sn_type = ''fetch'',
            sn_content = ''set beresp.http.X-Backend-URL = bereq.url;\<newline>        set beresp.http.X-Backend-Name = req.backend;''\<rparr>]
        = (issued, None)"
    by (auto simp add: deploy_def transaction_def Let_def
        split: option.splits prod.splits sum.splits simp del: await_each.simps)
  from await_each_complete [OF issued] show ?thesis
    unfolding calls
    by (simp add: snippets_written_append snippets_written_checks snippets_written_creates
        snippets_written_updates comp_def del: await_each.simps)
qed

text \<open>With an empty deployer list the transaction ends before any snippet is written.\<close>

lemma deploy_empty_list:
  "deployers g = [] \<Longrightarrow> fastly g = Some c \<Longrightarrow>
   deploy (\<lambda>call. None) v g =
     ([''Set up Fastly Gateway''],
      [WriteCondition v ''false''
         \<lparr>cn_name = ''false'', cn_statement = ''false'', cn_type = ''request''\<rparr>],
      Inl TypeError)"
  by (simp add: deploy_def transaction_def await_all_Nil selectBackendVCL_def)

text \<open>
  Claim C3, the claim as stated. In the scenario the deploy writes no health check named
  \<^verbatim>\<open>gCheck\<close> with the path \<^verbatim>\<open>/health\<close>: the path is the base path \<^verbatim>\<open>/\<close>
  followed by the check path \<^verbatim>\<open>/health\<close>.
\<close>

theorem deploy_scenario_counterexample:
  "\<not> (\<exists>hc. healthchecks_written (fst (snd (deploy (\<lambda>call. None) 1
        (scenario_gateway (Str ''service'') (Str ''token'') (Fastly (Str ''token'') (Str ''service''))))))
        = [hc]
      \<and> hc_name hc = ''gCheck'' \<and> hc_path hc = ''/health'')"
  by (simp add: deploy_def transaction_def scenario_gateway_def scenario_deployer_def
      selectBackendVCL_prints await_all_def healthcheck_of_def Let_def)

text \<open>
  Claim C3, amended. Whenever the deploy of the scenario's gateway completes, it has
  written exactly one health check, named \<^verbatim>\<open>gCheck\<close>, whose path is
  \<^verbatim>\<open>//health\<close> (base path followed by check path), exactly one backend, named
  \<open>g\<close>, and first of all snippets the \<^verbatim>\<open>backend\<close> snippet, whose content is the
  printed selection with the single guarded branch of \<open>g\<close> and the fallback block
  selecting \<open>g\<close>.
\<close>

theorem deploy_scenario:
  assumes "deploy api v (scenario_gateway s a c) = (lg, calls, Inr ())"
  shows "healthchecks_written calls =
       [\<lparr>hc_check_interval = 60000, hc_expected_response = 200, hc_host = ''g.example.com'',
         hc_http_version = ''1.1'', hc_method = ''GET'', hc_initial = 1, hc_name = ''gCheck'',
         hc_path = ''//health'', hc_threshold = 1, hc_timeout = 5000, hc_window = 2\<rparr>]
     \<and> backends_written api calls = [backend_of scenario_deployer]
     \<and> be_name (backend_of scenario_deployer) = ''g''
     \<and> (\<exists>rest. snippets_written calls =
            \<lparr>sn_name = ''backend'', sn_priority = 10, sn_dynamic = 0, sn_type = ''recv'',
             sn_content = print_selection \<lparr>draw_lo = 0, draw_hi = 0,
                branches = [IfFalse, IfDrawHealthy 0 ''g''],
                fallback_backend = ''g'', fallback_custom = ''undefined''\<rparr>\<rparr> # rest)"
  using assms
  by (simp add: deploy_def transaction_def scenario_selection await_all_single await_all_Nil Let_def
      split: option.splits prod.splits if_splits)
    (auto simp add: scenario_gateway_def scenario_deployer_def healthcheck_of_def backend_of_def
      await_all_single await_all_Nil
      split: option.splits prod.splits if_splits)

text \<open>The theorem on a service that accepts every call.\<close>

theorem deploy_scenario_witness:
  "healthchecks_written (fst (snd (deploy (\<lambda>call. None) 1
        (scenario_gateway (Str ''service'') (Str ''token'') (Fastly (Str ''token'') (Str ''service''))))))
     = [\<lparr>hc_check_interval = 60000, hc_expected_response = 200, hc_host = ''g.example.com'',
         hc_http_version = ''1.1'', hc_method = ''GET'', hc_initial = 1, hc_name = ''gCheck'',
         hc_path = ''//health'', hc_threshold = 1, hc_timeout = 5000, hc_window = 2\<rparr>]
   \<and> snd (snd (deploy (\<lambda>call. None) 1
        (scenario_gateway (Str ''service'') (Str ''token'') (Fastly (Str ''token'') (Str ''service''))))) = Inr ()"
proof -
  let ?G = "scenario_gateway (Str ''service'') (Str ''token'') (Fastly (Str ''token'') (Str ''service''))"
  obtain lg calls r where d: "deploy (\<lambda>call. None) 1 ?G = (lg, calls, r)"
    by (cases "deploy (\<lambda>call. None) 1 ?G") auto
  have "snd (snd (deploy (\<lambda>call. None) 1 ?G)) = Inr ()"
    by (simp add: deploy_def transaction_def scenario_gateway_def scenario_deployer_def
      selectBackendVCL_prints await_all_def healthcheck_of_def Let_def)
  with d have r: "r = Inr ()" by simp
  from deploy_scenario [OF d [unfolded r]] d r show ?thesis
    by simp
qed

text \<open>
  Claim C4. A deploy that completes writes exactly the four snippets \<^verbatim>\<open>backend\<close>,
  \<^verbatim>\<open>missurl\<close>, \<^verbatim>\<open>passurl\<close> and \<^verbatim>\<open>logurl\<close>, each with priority 10 and
  not dynamic (lemma \<open>deploy_complete_snippets\<close>), but \<^verbatim>\<open>passurl\<close> is attached to
  the phase \<^verbatim>\<open>miss\<close>, not to \<^verbatim>\<open>pass\<close>. The theorem evaluates the deploy of the
  scenario's gateway on a service that accepts every call.
\<close>

theorem deploy_passurl_on_miss:
  "map (\<lambda>sn. (sn_name sn, sn_priority sn, sn_dynamic sn, sn_type sn))
     (snippets_written (fst (snd (deploy (\<lambda>call. None) 1
        (scenario_gateway (Str ''service'') (Str ''token'') (Fastly (Str ''token'') (Str ''service'')))))))
   = [(''backend'', 10, 0, ''recv''), (''missurl'', 10, 0, ''miss''),
      (''passurl'', 10, 0, ''miss''), (''logurl'', 10, 0, ''fetch'')]
   \<and> snd (snd (deploy (\<lambda>call. None) 1
        (scenario_gateway (Str ''service'') (Str ''token'') (Fastly (Str ''token'') (Str ''service''))))) = Inr ()"
  by (simp add: deploy_def transaction_def scenario_gateway_def scenario_deployer_def
      selectBackendVCL_prints await_all_def healthcheck_of_def Let_def)

section \<open>Properties of the Google deployer\<close>

lemma replace_every_removes: "a \<noteq> b \<Longrightarrow> a \<notin> set (replace_every a b s)"
  by (auto simp add: replace_every_def)

lemma set_replace_first: "set (replace_first a b s) \<subseteq> insert b (set s)"
  by (induction s) auto

lemma fullFunctionName_no_dot: "CHR ''.'' \<notin> set (fullFunctionName c)"
proof -
  have "CHR ''.'' \<notin> set (replace_every (CHR ''.'') (CHR ''_'') (packageName c @ ''--'' @ cfg_name c))"
    by (rule replace_every_removes) simp
  with set_replace_first [of "CHR ''@''" "CHR ''_''"
      "replace_every (CHR ''.'') (CHR ''_'') (packageName c @ ''--'' @ cfg_name c)"]
  show ?thesis
    by (auto simp add: fullFunctionName_def)
qed

lemma count_replace_first:
  "a \<noteq> b \<Longrightarrow> count_list (replace_first a b s) a = count_list s a - 1"
  by (induction s) auto

lemma count_replace_every_other:
  "c \<noteq> a \<Longrightarrow> c \<noteq> b \<Longrightarrow> count_list (replace_every a b s) c = count_list s c"
  by (induction s) (auto simp add: replace_every_def)

lemma fullFunctionName_count_at:
  "count_list (fullFunctionName c) (CHR ''@'')
     = count_list (packageName c @ ''--'' @ cfg_name c) (CHR ''@'') - 1"
  by (simp add: fullFunctionName_def count_replace_first count_replace_every_other)

text \<open>
  Claim C2. The derived function name never contains a dot, and it has one \<^verbatim>\<open>@\<close>
  less than package name and function name together (lemmas \<open>fullFunctionName_no_dot\<close>
  and \<open>fullFunctionName_count_at\<close>), so a second \<^verbatim>\<open>@\<close> stays: for the package
  \<^verbatim>\<open>@scope\<close> and the function \<^verbatim>\<open>fn@1.2.3\<close> the name is
  \<^verbatim>\<open>_scope--fn@1_2_3\<close>.
\<close>

theorem fullFunctionName_keeps_second_at:
  "fullFunctionName (c\<lparr>packageName := ''@scope'', cfg_name := ''fn@1.2.3''\<rparr>) = ''_scope--fn@1_2_3''
   \<and> CHR ''@'' \<in> set (fullFunctionName (c\<lparr>packageName := ''@scope'', cfg_name := ''fn@1.2.3''\<rparr>))"
  by (simp add: fullFunctionName_def replace_every_def)

lemma report_failure_logs_first:
  "\<exists>rest. fst (report_failure err) = LogError [LErr err] # rest"
  by (simp add: report_failure_def split: option.splits)

lemma report_failure_no_calls:
  "CallUpdateFunction f \<notin> set (fst (report_failure err))"
  by (simp add: report_failure_def split: option.splits)

lemma lookup_no_update: "CallUpdateFunction f \<notin> set (fst (lookup d))"
  by (simp add: lookup_def split: option.splits)

lemma create_branch_no_update: "CallUpdateFunction f \<notin> set (fst (create_or_update False d))"
  by (auto simp add: create_or_update_def enable_unauthenticated_def
      split: option.splits sum.splits)

lemma createFunction_events:
  "\<exists>evs3. fst (createFunction d) =
       fst (lookup d) @ fst (create_or_update (snd (lookup d)) d) @ evs3
     \<and> (evs3 = [] \<or> (\<exists>err. evs3 = fst (report_failure err)))"
proof -
  obtain evs1 ex where l: "lookup d = (evs1, ex)"
    by (cases "lookup d") auto
  obtain evs2 d' r where c: "create_or_update ex d = (evs2, d', r)"
    by (cases "create_or_update ex d") auto
  show ?thesis
  proof (cases r)
    case None
    with l c show ?thesis
      by (simp add: createFunction_def split: option.splits)
  next
    case (Some err)
    obtain evs3 thrown where "report_failure err = (evs3, thrown)"
      by (cases "report_failure err") auto
    with Some l c have "fst (createFunction d) = evs1 @ evs2 @ fst (report_failure err)"
      by (simp add: createFunction_def)
    with l c show ?thesis by auto
  qed
qed

text \<open>
  Claim C5. When the existence lookup of \<^verbatim>\<open>createFunction()\<close> throws (the provider
  rejects \<^verbatim>\<open>getFunction\<close>, or there is no client to call), the function counts as
  not existing and no \<^verbatim>\<open>updateFunction\<close> call is ever made; with a client, the
  call right after the lookup is the \<^verbatim>\<open>createFunction\<close> call for the location and
  the function object.
\<close>

theorem createFunction_lookup_throws:
  assumes "case client d of None \<Rightarrow> True
           | Some c \<Rightarrow> rpc_getFunction c (function_path d) \<noteq> None"
  shows "snd (lookup d) = False
     \<and> (\<forall>f. CallUpdateFunction f \<notin> set (fst (createFunction d)))
     \<and> (\<forall>c. client d = Some c \<longrightarrow>
          (\<exists>rest. fst (createFunction d) =
             CallGetFunction (function_path d) # CallCreateFunction (location d) (func d) # rest))"
proof -
  have l: "snd (lookup d) = False"
    using assms by (auto simp add: lookup_def split: option.splits)
  from createFunction_events [of d] l obtain evs3 where
    evs: "fst (createFunction d) = fst (lookup d) @ fst (create_or_update False d) @ evs3"
    and evs3: "evs3 = [] \<or> (\<exists>err. evs3 = fst (report_failure err))"
    by auto
  have a: "CallUpdateFunction f \<notin> set (fst (createFunction d))" for f
    using evs3 lookup_no_update [of f d] create_branch_no_update [of f d]
      report_failure_no_calls [of f]
    by (auto simp add: evs)
  have b: "\<exists>rest. fst (createFunction d) =
             CallGetFunction (function_path d) # CallCreateFunction (location d) (func d) # rest"
    if "client d = Some c" for c
  proof -
    from that assms have "fst (lookup d) = [CallGetFunction (function_path d)]"
      by (auto simp add: lookup_def split: option.splits)
    moreover from that have "\<exists>rest. fst (create_or_update False d) =
        CallCreateFunction (location d) (func d) # rest"
      by (auto simp add: create_or_update_def enable_unauthenticated_def
          split: sum.splits prod.splits)
    ultimately show ?thesis by (auto simp add: evs)
  qed
  from l a b show ?thesis by blast
qed

text \<open>The theorem for the example deployer, whose client rejects the lookup.\<close>

theorem createFunction_lookup_throws_witness:
  "snd (lookup example_deployer) = False
   \<and> (\<exists>rest. fst (createFunction example_deployer) =
        CallGetFunction ''projects/proj/locations/us-central1/functions/pkg--fn_1_2_3''
        # CallCreateFunction ''projects/proj/locations/us-central1'' (func example_deployer)
        # rest)"
proof -
  have c: "client example_deployer = Some example_client"
    by (simp add: example_deployer_def)
  have "case client example_deployer of None \<Rightarrow> True
        | Some c \<Rightarrow> rpc_getFunction c (function_path example_deployer) \<noteq> None"
    by (simp add: example_deployer_def example_client_def)
  from createFunction_lookup_throws [OF this] c
  have "snd (lookup example_deployer) = False"
    and "\<exists>rest. fst (createFunction example_deployer) =
        CallGetFunction (function_path example_deployer)
        # CallCreateFunction (location example_deployer) (func example_deployer) # rest"
    by blast+
  moreover have "function_path example_deployer
      = ''projects/proj/locations/us-central1/functions/pkg--fn_1_2_3''"
    by (simp add: function_path_def example_deployer_def fullFunctionName_def replace_every_def)
  moreover have "location example_deployer = ''projects/proj/locations/us-central1''"
    by (simp add: location_def example_deployer_def)
  ultimately show ?thesis by simp
qed

text \<open>
  Claim C8. When \<^verbatim>\<open>_functionURL\<close> is unset (undefined, or empty),
  \<^verbatim>\<open>test()\<close> passes to \<^verbatim>\<open>testRequest\<close> the URL
  \<^verbatim>\<open>https://{region}-{projectID}.cloudfunctions.net/{fullFunctionName}\<close>, the id
  header \<^verbatim>\<open>X-Cloud-Trace-Context\<close> and \<^verbatim>\<open>retry404: 1\<close>, and returns what
  \<^verbatim>\<open>testRequest\<close> returns.
\<close>

theorem test_probes_fallback_url:
  assumes "\<not> truthy (functionURL d)"
  shows "test testRequest d =
     testRequest \<lparr>tr_url = ''https://'' @ region (google_cfg d) @ ''-'' @ projectID (google_cfg d)
                      @ ''.cloudfunctions.net/'' @ fullFunctionName (cfg d),
                  tr_idHeader = ''X-Cloud-Trace-Context'',
                  tr_retry404 = 1\<rparr>"
  using assms by (simp add: test_def)

text \<open>The theorem for the example deployer, which has not deployed yet.\<close>

theorem test_probes_fallback_url_witness:
  "test (\<lambda>request. request) example_deployer =
     \<lparr>tr_url = ''https://us-central1-proj.cloudfunctions.net/pkg--fn_1_2_3'',
      tr_idHeader = ''X-Cloud-Trace-Context'',
      tr_retry404 = 1\<rparr>"
proof -
  have "\<not> truthy (functionURL example_deployer)"
    by (simp add: example_deployer_def)
  from test_probes_fallback_url [OF this, of "\<lambda>request. request"] show ?thesis
    by (simp add: example_deployer_def fullFunctionName_def replace_every_def)
qed

text \<open>
  When the error carries both diagnostic entries, they are logged after the error and
  the error itself is thrown again.
\<close>

lemma report_failure_rethrows:
  assumes "map_of md ''google.rpc.badrequest-bin'' = Some bad"
    and "map_of md ''grpc-status-details-bin'' = Some details"
  shows "report_failure (ProviderError msg (Some md)) =
     ([LogError [LErr (ProviderError msg (Some md))], LogError [LStr ''bad request:'', LStr bad],
       LogError [LStr ''details:'', LStr details]], ProviderError msg (Some md))"
  using assms by (simp add: report_failure_def diagnostic_def)

text \<open>
  Without the first diagnostic entry the handler logs the error and throws a TypeError.
\<close>

lemma report_failure_masks:
  "diagnostic err ''google.rpc.badrequest-bin'' = None \<Longrightarrow>
   report_failure err = ([LogError [LErr err]], TypeError)"
  by (simp add: report_failure_def)

text \<open>
  Claim C9. An error of the create/update/policy stage that lacks one of the two
  diagnostic entries is logged, but then a TypeError is thrown in its place: for a
  provider whose create and update calls reject with an error without metadata
  \<^verbatim>\<open>createFunction()\<close> throws a TypeError, and for a permission error that carries
  only \<^verbatim>\<open>grpc-status-details-bin\<close> the handler logs the error alone and ends in
  a TypeError.
\<close>

theorem createFunction_masks_error:
  "snd (snd (createFunction (d\<lparr>client := Some
        \<lparr>rpc_getFunction = lookup_answer,
         rpc_updateFunction = (\<lambda>f. Inl (ProviderError msg None)),
         rpc_createFunction = (\<lambda>l f. Inl (ProviderError msg None)),
         rpc_setIamPolicy = policy_answer\<rparr>\<rparr>))) = Some TypeError
   \<and> report_failure (ProviderError ''PERMISSION_DENIED'' (Some [(''grpc-status-details-bin'', details)]))
     = ([LogError [LErr (ProviderError ''PERMISSION_DENIED'' (Some [(''grpc-status-details-bin'', details)]))]],
        TypeError)"
  by (simp add: createFunction_def lookup_def create_or_update_def report_failure_def diagnostic_def
      split: option.splits)

end
